theory Spec2Isabelle
  imports Main "HOL-Library.Countable"
begin

section \<open>Static runtime: the declarations of \<^verbatim>\<open>torch/csrc/jit/runtime/static/impl.h\<close>\<close>

subsection \<open>StaticModuleOptions\<close>

text \<open>
  \<^verbatim>\<open>struct StaticModuleOptions\<close> (impl.h, lines 19-32): four flags, each with its
  default member initialiser.
\<close>

record StaticModuleOptions =
  cleanup_activations :: bool
  enable_out_variant :: bool
  optimize_memory :: bool
  optimize_graph_output_memory :: bool

text \<open>
  The value a default construction \<^verbatim>\<open>StaticModuleOptions()\<close> yields:
  \<^verbatim>\<open>cleanup_activations{true}\<close>, \<^verbatim>\<open>enable_out_variant{true}\<close>,
  \<^verbatim>\<open>optimize_memory{true}\<close>, \<^verbatim>\<open>optimize_graph_output_memory{false}\<close>.
\<close>

definition StaticModuleOptions_default :: StaticModuleOptions where
  "StaticModuleOptions_default =
     \<lparr>cleanup_activations = True,
      enable_out_variant = True,
      optimize_memory = True,
      optimize_graph_output_memory = False\<rparr>"

text \<open>
  The requirements the comments of the struct put on a combination of flags:
  \<^verbatim>\<open>optimize_memory\<close> says "(enable_out_variant must be true)" (line 26) and
  \<^verbatim>\<open>optimize_graph_output_memory\<close> says the same (line 30).
\<close>

definition opts_documented_requirements :: "StaticModuleOptions \<Rightarrow> bool" where
  "opts_documented_requirements options \<longleftrightarrow>
     (optimize_memory options \<longrightarrow> enable_out_variant options) \<and>
     (optimize_graph_output_memory options \<longrightarrow> enable_out_variant options)"

subsection \<open>Values held by the runtime\<close>

text \<open>
  \<^verbatim>\<open>c10::IValue\<close> is declared outside this header. What the header uses of it is the
  default-constructed value \<^verbatim>\<open>IValue()\<close>, the empty (None) value that owns nothing;
  every other value carries a payload, left as the type parameter.
\<close>

datatype 'a IValue = IValue_None | IValue_Holding 'a

text \<open>An \<^verbatim>\<open>IValue\<close> keeps an object alive exactly when it is not the empty one.\<close>

fun owns_reference :: "'a IValue \<Rightarrow> bool" where
  "owns_reference IValue_None = False"
| "owns_reference (IValue_Holding x) = True"

text \<open>
  \<^verbatim>\<open>IValue*\<close>: an address; what it points to is looked up in an explicit store, where an
  address that holds no live \<^verbatim>\<open>IValue\<close> has no entry.
\<close>

type_synonym IValue_ptr = nat

type_synonym 'a IValue_store = "IValue_ptr \<rightharpoonup> 'a IValue"

subsection \<open>The graph layer and the instructions\<close>

text \<open>
  Modelled from the spec: \<^verbatim>\<open>torch::jit::Graph\<close>, \<^verbatim>\<open>Node\<close> and \<^verbatim>\<open>Value\<close>
  (torch/csrc/jit/ir/ir.h) are not among the sources. Section 6 of the specification
  gives what the compiler consumes: a topologically ordered graph of operation nodes,
  each reading input values and producing output values; section 4.1 singles out the
  literal/constant-producing nodes. A \<^verbatim>\<open>const Value*\<close> is used as the identity of a
  value only, so a value is a number. A constant node produces one value and carries its
  literal.
\<close>

type_synonym Value = nat

datatype 'a Node =
  Constant_node Value "'a IValue"
| Operation_node string "Value list" "Value list"

record 'a Graph =
  graph_inputs :: "Value list"
  graph_nodes :: "'a Node list"
  graph_outputs :: "Value list"

text \<open>
  Modelled from the spec: \<^verbatim>\<open>ProcessedNode\<close> is declared in another header. Section 3:
  an instruction is one operation together with its resolved input references and the
  outputs it produces, and the output storage is what changes per call; the
  \<^verbatim>\<open>DefInfo\<close> comment of impl.h reads an instruction's outputs as
  \<^verbatim>\<open>nodes_[kind].outputs()[idx]\<close>. The resolved input references are pointers to
  the slots the inputs are read from; an instruction of a module, which belongs to no
  runtime yet, has none.
\<close>

record 'a ProcessedNode =
  pnode :: "'a Node"
  pnode_inputs :: "IValue_ptr list"
  pnode_outputs :: "'a IValue list"

text \<open>\<^verbatim>\<open>MemoryPlanner\<close> is declared in another header; the runtime only stores it.\<close>

typedecl MemoryPlanner

subsection \<open>StaticModule\<close>

text \<open>
  \<^verbatim>\<open>enum VALUE_KIND\<close> (lines 90-93) and \<^verbatim>\<open>using DefInfo = std::pair<int, int>\<close>
  (line 105). The C++ \<^verbatim>\<open>int\<close> is modelled as an unbounded integer: a graph with
  more than \<open>2^31\<close> nodes or values is outside the model.
\<close>

definition CONSTANT_VALUE :: int where
  "CONSTANT_VALUE = - 2"

definition INPUT_VALUE :: int where
  "INPUT_VALUE = - 1"

type_synonym DefInfo = "int \<times> int"

text \<open>
  The data members of \<^verbatim>\<open>class StaticModule\<close> (lines 164-179) that the compilation
  of the instruction list fills, under the names of their accessors:
  \<^verbatim>\<open>opts_\<close>, \<^verbatim>\<open>graph_\<close>, \<^verbatim>\<open>constants_\<close>, \<^verbatim>\<open>nodes_\<close>,
  \<^verbatim>\<open>output_ssa_defs_\<close> (accessor \<^verbatim>\<open>output_indices\<close>) and
  \<^verbatim>\<open>node_inputs_ssa_def_map_\<close> (accessor \<^verbatim>\<open>index_map\<close>), an
  \<^verbatim>\<open>unordered_map\<close> keyed by the node index. The module, the schema, the cached
  runtime and the planner's bookkeeping sets are not modelled.
\<close>

record 'a StaticModule =
  opts :: StaticModuleOptions
  graph :: "'a Graph"
  constants :: "'a IValue list"
  nodes :: "'a ProcessedNode list"
  output_indices :: "DefInfo list"
  index_map :: "int \<rightharpoonup> DefInfo list"

subsection \<open>StaticRuntime\<close>

text \<open>
  The data members of \<^verbatim>\<open>class StaticRuntime\<close> (lines 285-289). The reference
  \<^verbatim>\<open>const StaticModule& static_module_\<close> is read-only, so the runtime holds the
  module as a value. \<^verbatim>\<open>std::unique_ptr<MemoryPlanner>\<close> may be null. A field keeps
  the member's name without its trailing underscore.
\<close>

record 'a StaticRuntime =
  static_module :: "'a StaticModule"
  planner :: "MemoryPlanner option"
  inputs :: "'a IValue list"
  outputs :: "IValue_ptr list"
  nodes :: "'a ProcessedNode list"

text \<open>
  \<^verbatim>\<open>clean_up_input_ivalues\<close> (lines 276-280): the range-based loop assigns
  \<^verbatim>\<open>IValue()\<close> to every element of \<^verbatim>\<open>inputs_\<close> in turn.
\<close>

fun clean_up_loop :: "'a IValue list \<Rightarrow> 'a IValue list" where
  "clean_up_loop [] = []"
| "clean_up_loop (ival # rest) = IValue_None # clean_up_loop rest"

definition clean_up_input_ivalues :: "'a StaticRuntime \<Rightarrow> 'a StaticRuntime" where
  "clean_up_input_ivalues rt = rt\<lparr>inputs := clean_up_loop (inputs rt)\<rparr>"

text \<open>
  \<^verbatim>\<open>DCHECK\<close> is a macro of the logging library, not of this repository: a check that
  aborts the process on a false condition in a debug build and is compiled out when
  \<^verbatim>\<open>NDEBUG\<close> is defined. The build configuration is a parameter of every function
  that uses it.
\<close>

datatype build_config = Debug | NDEBUG

definition DCHECK_aborts :: "build_config \<Rightarrow> bool \<Rightarrow> bool" where
  "DCHECK_aborts build cond \<longleftrightarrow> build = Debug \<and> \<not> cond"

text \<open>
  What a call of an accessor does: it returns a value, the check aborts the process, or
  the unchecked \<^verbatim>\<open>operator[]\<close> (or the dereference) is outside the object and the
  behaviour is undefined.
\<close>

datatype 'r outcome = Returned 'r | Check_abort | Undefined_behaviour

text \<open>
  \<^verbatim>\<open>Input\<close> (lines 240-243): \<^verbatim>\<open>DCHECK(i < inputs_.size()); return inputs_[i];\<close>.
  The index is a \<^verbatim>\<open>size_t\<close>, so it has no negative values.
\<close>

definition Input :: "build_config \<Rightarrow> 'a StaticRuntime \<Rightarrow> nat \<Rightarrow> 'a IValue outcome" where
  "Input build rt i =
     (if DCHECK_aborts build (i < length (inputs rt)) then Check_abort
      else if i < length (inputs rt) then Returned (inputs rt ! i)
      else Undefined_behaviour)"

text \<open>
  \<^verbatim>\<open>Output\<close> (lines 246-249): \<^verbatim>\<open>DCHECK(i < outputs_.size()); return *outputs_[i];\<close>.
\<close>

definition Output ::
  "build_config \<Rightarrow> 'a IValue_store \<Rightarrow> 'a StaticRuntime \<Rightarrow> nat \<Rightarrow> 'a IValue outcome" where
  "Output build store rt i =
     (if DCHECK_aborts build (i < length (outputs rt)) then Check_abort
      else if i < length (outputs rt) then
        (case store (outputs rt ! i) of
           Some v \<Rightarrow> Returned v
         | None \<Rightarrow> Undefined_behaviour)
      else Undefined_behaviour)"

subsection \<open>Compiling a graph into the instruction list\<close>

text \<open>
  Modelled from the spec: the constructors of \<^verbatim>\<open>StaticModule\<close> are declared in
  impl.h (lines 82-99) and defined in impl.cpp, which is not among the sources. Section
  4.1 of the specification, steps 1 to 3: walk the nodes in graph order; a constant
  node goes to the constant table and its value is from then on a \<^verbatim>\<open>CONSTANT\<close>
  reference; every other node becomes the next instruction, each of its inputs is
  looked up among the values defined so far (graph inputs, constants, outputs of earlier
  instructions) and the references found are the index-map entry of the instruction;
  its outputs get the references (instruction ordinal, output index). An input that no
  earlier node, constant or graph input defines is an unresolved value reference, a
  fatal invariant violation (section 4.2). The graph outputs are looked up last.
  \<^verbatim>\<open>canEnableStaticRuntime\<close> (impl.h, lines 16-17) is declared only; the test for
  supported graphs is a parameter.
\<close>

datatype compile_failure = GraphUnsupported | Unresolved_value_reference

record 'a compile_state =
  value_to_ssa_def :: "Value \<rightharpoonup> DefInfo"
  cs_constants :: "'a IValue list"
  cs_nodes :: "'a ProcessedNode list"
  cs_index_map :: "int \<rightharpoonup> DefInfo list"

text \<open>The values \<open>vs\<close> become the references \<open>(kind, i)\<close>, \<open>(kind, i + 1)\<close>, ...\<close>

fun bind_values ::
  "int \<Rightarrow> Value list \<Rightarrow> nat \<Rightarrow> (Value \<rightharpoonup> DefInfo) \<Rightarrow> (Value \<rightharpoonup> DefInfo)" where
  "bind_values kind [] i m = m"
| "bind_values kind (v # vs) i m = bind_values kind vs (Suc i) (m(v \<mapsto> (kind, int i)))"

text \<open>The references of the values \<open>vs\<close>, or nothing when one of them has none.\<close>

fun lookup_ssa_defs :: "(Value \<rightharpoonup> DefInfo) \<Rightarrow> Value list \<Rightarrow> DefInfo list option" where
  "lookup_ssa_defs m [] = Some []"
| "lookup_ssa_defs m (v # vs) =
     (case m v of
        None \<Rightarrow> None
      | Some d \<Rightarrow>
          (case lookup_ssa_defs m vs of
             None \<Rightarrow> None
           | Some ds \<Rightarrow> Some (d # ds)))"

fun compile_nodes ::
  "'a Node list \<Rightarrow> 'a compile_state \<Rightarrow> compile_failure + 'a compile_state" where
  "compile_nodes [] cs = Inr cs"
| "compile_nodes (Constant_node v c # ns) cs =
     compile_nodes ns
       (cs\<lparr>value_to_ssa_def :=
             (value_to_ssa_def cs)(v \<mapsto> (CONSTANT_VALUE, int (length (cs_constants cs)))),
           cs_constants := cs_constants cs @ [c]\<rparr>)"
| "compile_nodes (Operation_node name ins outs # ns) cs =
     (case lookup_ssa_defs (value_to_ssa_def cs) ins of
        None \<Rightarrow> Inl Unresolved_value_reference
      | Some defs \<Rightarrow>
          compile_nodes ns
            (cs\<lparr>value_to_ssa_def :=
                  bind_values (int (length (cs_nodes cs))) outs 0 (value_to_ssa_def cs),
                cs_nodes := cs_nodes cs @
                  [\<lparr>pnode = Operation_node name ins outs, pnode_inputs = [],
                    pnode_outputs = replicate (length outs) IValue_None\<rparr>],
                cs_index_map := (cs_index_map cs)(int (length (cs_nodes cs)) \<mapsto> defs)\<rparr>))"

definition initial_compile_state :: "'a Graph \<Rightarrow> 'a compile_state" where
  "initial_compile_state g =
     \<lparr>value_to_ssa_def = bind_values INPUT_VALUE (graph_inputs g) 0 Map.empty,
      cs_constants = [],
      cs_nodes = [],
      cs_index_map = Map.empty\<rparr>"

definition compile ::
  "('a Graph \<Rightarrow> bool) \<Rightarrow> 'a Graph \<Rightarrow> StaticModuleOptions
     \<Rightarrow> compile_failure + 'a StaticModule" where
  "compile canEnableStaticRuntime g options =
     (if \<not> canEnableStaticRuntime g then Inl GraphUnsupported
      else
        (case compile_nodes (graph_nodes g) (initial_compile_state g) of
           Inl failure \<Rightarrow> Inl failure
         | Inr cs \<Rightarrow>
             (case lookup_ssa_defs (value_to_ssa_def cs) (graph_outputs g) of
                None \<Rightarrow> Inl Unresolved_value_reference
              | Some out_defs \<Rightarrow>
                  Inr \<lparr>opts = options,
                       graph = g,
                       constants = cs_constants cs,
                       StaticModule.nodes = cs_nodes cs,
                       output_indices = out_defs,
                       index_map = cs_index_map cs\<rparr>)))"


subsection \<open>Resolving a value reference\<close>

text \<open>
  Modelled from the spec: the code that turns a \<^verbatim>\<open>DefInfo\<close> into a storage location
  is in impl.cpp, not among the sources. Section 3 of the specification (a value
  reference is a pair of an origin, one of \<^verbatim>\<open>CONSTANT\<close>, \<^verbatim>\<open>INPUT\<close> or an
  instruction ordinal, and an index) and the comment on \<^verbatim>\<open>DefInfo\<close> (impl.h, lines
  101-104) give the rule: \<^verbatim>\<open>CONSTANT_VALUE\<close> maps to \<^verbatim>\<open>constants_[idx]\<close>,
  \<^verbatim>\<open>INPUT_VALUE\<close> to \<^verbatim>\<open>inputs_[idx]\<close>, anything else to
  \<^verbatim>\<open>nodes_[kind].outputs()[idx]\<close>. A location is a slot that exists; a pair that
  indexes outside its table resolves to nothing.
\<close>

datatype location =
  In_constants nat
| In_inputs nat
| In_node_outputs nat nat



text \<open>The module of the empty graph: no graph input, no instruction, no output.\<close>

definition empty_module :: "'a StaticModule" where
  "empty_module =
     \<lparr>opts = StaticModuleOptions_default,
      graph = \<lparr>graph_inputs = [], graph_nodes = [], graph_outputs = []\<rparr>,
      constants = [],
      StaticModule.nodes = [],
      output_indices = [],
      index_map = Map.empty\<rparr>"

subsection \<open>The slots a pointer of the runtime can point to\<close>

text \<open>
  Modelled from the spec: where the pointers of a runtime point is decided in impl.cpp,
  not among the sources. Section 4.2 of the specification: an instruction reads
  constants, the current input slots or an already written output of another
  instruction, and an output reference points at an instruction's output slot or, for
  an output that is itself a graph input or constant, at that slot directly. So every
  \<^verbatim>\<open>IValue*\<close> a runtime holds is the address of a location. The address of a
  location is a number chosen injectively; the numbering itself means nothing.
\<close>

definition address_of :: "location \<Rightarrow> IValue_ptr" where
  "address_of loc =
     (case loc of
        In_constants i \<Rightarrow> 3 * i
      | In_inputs i \<Rightarrow> 3 * i + 1
      | In_node_outputs k j \<Rightarrow> 3 * prod_encode (k, j) + 2)"

definition location_at :: "IValue_ptr \<Rightarrow> location" where
  "location_at p =
     (if p mod 3 = 0 then In_constants (p div 3)
      else if p mod 3 = 1 then In_inputs (p div 3)
      else (case prod_decode (p div 3) of (k, j) \<Rightarrow> In_node_outputs k j))"

text \<open>
  What a location holds in a runtime: a constant of the module the runtime refers to,
  one of its own input slots, or an output slot of one of its own instructions. A
  location outside these tables holds nothing.
\<close>

fun read_location :: "'a StaticRuntime \<Rightarrow> location \<Rightarrow> 'a IValue option" where
  "read_location rt (In_constants i) =
     (if i < length (constants (static_module rt))
      then Some (constants (static_module rt) ! i) else None)"
| "read_location rt (In_inputs i) =
     (if i < length (inputs rt) then Some (inputs rt ! i) else None)"
| "read_location rt (In_node_outputs k j) =
     (if k < length (nodes rt) \<and> j < length (pnode_outputs (nodes rt ! k))
      then Some (pnode_outputs (nodes rt ! k) ! j) else None)"

text \<open>
  The store that the pointers of a runtime are read in: the runtime's own slots and the
  constants of its module, each at its address. An output pointer can so point into
  \<^verbatim>\<open>inputs_\<close>.
\<close>

definition memory :: "'a StaticRuntime \<Rightarrow> 'a IValue_store" where
  "memory rt p = read_location rt (location_at p)"

subsection \<open>Creating a runtime\<close>





subsection \<open>A call of the run operator\<close>











subsection \<open>The invariant of the compilation\<close>



subsection \<open>An example: \<open>y = add(x, c)\<close> with a constant \<open>c\<close>\<close>








section \<open>Properties\<close>

subsection \<open>Default options\<close>

text \<open>
  C8. A default-constructed \<^verbatim>\<open>StaticModuleOptions\<close> has
  \<^verbatim>\<open>optimize_graph_output_memory\<close> equal to false. It meets the documented
  requirements, and a value with \<^verbatim>\<open>optimize_graph_output_memory\<close> switched on meets
  them only if its \<^verbatim>\<open>enable_out_variant\<close> is true.
\<close>

theorem default_optimize_graph_output_memory_off:
  "optimize_graph_output_memory StaticModuleOptions_default = False \<and>
   opts_documented_requirements StaticModuleOptions_default \<and>
   (opts_documented_requirements (options\<lparr>optimize_graph_output_memory := True\<rparr>)
      \<longrightarrow> enable_out_variant options)"
  by (simp add: StaticModuleOptions_default_def opts_documented_requirements_def)

theorem default_optimize_graph_output_memory_off_witness:
  "opts_documented_requirements
     (StaticModuleOptions_default\<lparr>optimize_graph_output_memory := True\<rparr>) \<and>
   enable_out_variant StaticModuleOptions_default \<and>
   \<not> opts_documented_requirements
     (StaticModuleOptions_default\<lparr>optimize_graph_output_memory := True,
        enable_out_variant := False\<rparr>)"
  using default_optimize_graph_output_memory_off [of StaticModuleOptions_default]
  by (simp add: StaticModuleOptions_default_def opts_documented_requirements_def)

subsection \<open>Resetting the input slots\<close>

lemma clean_up_loop_replicate: "clean_up_loop xs = replicate (length xs) IValue_None"
  by (induction xs) simp_all

text \<open>
  After \<^verbatim>\<open>clean_up_input_ivalues\<close> every element of \<^verbatim>\<open>inputs_\<close> is the empty
  \<^verbatim>\<open>IValue\<close>: the array keeps its length, no input slot owns a reference any more,
  and the other data members keep their values.
\<close>

lemma clean_up_input_ivalues_resets_all:
  "inputs (clean_up_input_ivalues rt) = replicate (length (inputs rt)) IValue_None \<and>
   filter owns_reference (inputs (clean_up_input_ivalues rt)) = [] \<and>
   clean_up_input_ivalues rt = rt\<lparr>inputs := inputs (clean_up_input_ivalues rt)\<rparr>"
  by (simp add: clean_up_input_ivalues_def clean_up_loop_replicate)

text \<open>On a runtime whose two input slots hold caller values, both slots come back empty.\<close>

lemma clean_up_input_ivalues_example:
  "inputs (clean_up_input_ivalues
      \<lparr>static_module = empty_module, planner = None,
       inputs = [IValue_Holding (1::nat), IValue_Holding 2], outputs = [], nodes = []\<rparr>)
   = [IValue_None, IValue_None]"
  by (simp add: clean_up_input_ivalues_def)

subsection \<open>Addresses and the runtime's memory\<close>

lemma location_at_address_of: "location_at (address_of loc) = loc"
proof (cases loc)
  case (In_constants i)
  then show ?thesis by (simp add: address_of_def location_at_def)
next
  case (In_inputs i)
  then show ?thesis by (simp add: address_of_def location_at_def)
next
  case (In_node_outputs k j)
  have "(3 * prod_encode (k, j) + 2) mod 3 = 2" "(3 * prod_encode (k, j) + 2) div 3 = prod_encode (k, j)"
    by presburger+
  with In_node_outputs show ?thesis
    by (simp add: address_of_def location_at_def del: One_nat_def)
qed

lemma memory_address_of: "memory rt (address_of loc) = read_location rt loc"
  by (simp add: memory_def location_at_address_of)

text \<open>
  The members that \<^verbatim>\<open>clean_up_input_ivalues\<close> leaves alone include the pointers of
  \<^verbatim>\<open>outputs_\<close>, not what they point to: an output pointer into \<^verbatim>\<open>inputs_\<close>
  reads the emptied slot afterwards.
\<close>

lemma Output_into_input_slot_after_clean_up:
  assumes "i < length (outputs rt)" and "outputs rt ! i = address_of (In_inputs j)"
    and "j < length (inputs rt)"
  shows "Output build (memory (clean_up_input_ivalues rt)) (clean_up_input_ivalues rt) i
         = Returned IValue_None"
  using assms
  by (simp add: Output_def DCHECK_aborts_def memory_address_of clean_up_input_ivalues_def
      clean_up_loop_replicate)

subsection \<open>What a call leaves in the runtime\<close>















subsection \<open>Out-of-range slot indices\<close>

text \<open>
  C6, as stated: \<^verbatim>\<open>Input(i)\<close> with \<^verbatim>\<open>i >= inputs_.size()\<close> aborts in every build
  configuration. It does not where \<^verbatim>\<open>DCHECK\<close> is compiled out: on a runtime with no
  input slot, \<^verbatim>\<open>Input(0)\<close> reaches the unchecked element access.
\<close>

theorem Input_out_of_range_NDEBUG_counterexample:
  "Input NDEBUG
     \<lparr>static_module = empty_module, planner = None,
      inputs = ([] :: unit IValue list), outputs = [], nodes = []\<rparr> 0
   \<noteq> Check_abort"
  by (simp add: Input_def DCHECK_aborts_def)

text \<open>
  C6, amended: in a build where \<^verbatim>\<open>DCHECK\<close> is active, \<^verbatim>\<open>Input(i)\<close> with
  \<^verbatim>\<open>i >= inputs_.size()\<close> and \<^verbatim>\<open>Output(i)\<close> with \<^verbatim>\<open>i >= outputs_.size()\<close> abort
  on the check; where it is compiled out, neither call checks the index and the
  out-of-range element access is undefined behaviour. In no build does such a call
  return a value.
\<close>

theorem out_of_range_index_outcome:
  "(length (inputs rt) \<le> i \<longrightarrow>
      Input build rt i = (if build = Debug then Check_abort else Undefined_behaviour)) \<and>
   (length (outputs rt) \<le> i \<longrightarrow>
      Output build store rt i = (if build = Debug then Check_abort else Undefined_behaviour))"
  by (simp add: Input_def Output_def DCHECK_aborts_def)

theorem out_of_range_index_outcome_witness:
  "Input Debug
     \<lparr>static_module = empty_module, planner = None,
      inputs = [IValue_Holding (7::nat)], outputs = [0], nodes = []\<rparr> 1 = Check_abort \<and>
   Output NDEBUG Map.empty
     \<lparr>static_module = empty_module, planner = None,
      inputs = [IValue_Holding (7::nat)], outputs = [0], nodes = []\<rparr> 1
     = Undefined_behaviour"
  using out_of_range_index_outcome
    [of "\<lparr>static_module = empty_module, planner = None,
          inputs = [IValue_Holding (7::nat)], outputs = [0], nodes = []\<rparr>" 1 Debug]
    out_of_range_index_outcome
    [of "\<lparr>static_module = empty_module, planner = None,
          inputs = [IValue_Holding (7::nat)], outputs = [0], nodes = []\<rparr>" 1 NDEBUG Map.empty]
  by simp

subsection \<open>Value references of a compiled module\<close>




lemma lookup_ssa_defs_length:
  "lookup_ssa_defs m vs = Some ds \<Longrightarrow> length ds = length vs"
  by (induction vs arbitrary: ds) (auto split: option.splits)































text \<open>
  A graph whose only node reads a value that nothing defines is refused: the
  compilation stops at the unresolved reference.
\<close>

lemma compile_unresolved_example:
  "compile (\<lambda>g. True)
     \<lparr>graph_inputs = [0], graph_nodes = [Operation_node ''relu'' [7] [1]],
      graph_outputs = [1]\<rparr> StaticModuleOptions_default
   = (Inl Unresolved_value_reference :: compile_failure + nat StaticModule)"
  by (simp add: compile_def initial_compile_state_def)

end
